theory Spec2Isabelle
  imports Complex_Main "HOL-Library.Word"
begin

section \<open>The fall detector's loop (Optimized Loop Fall Detector)\<close>

text \<open>
  The sketch targets the Arduino Uno (ATmega328P, avr-gcc): \<open>unsigned long\<close> is a
  32-bit word, \<open>int\<close> is a 16-bit two's complement integer, \<open>float\<close> is IEEE
  binary32. The millisecond clock \<open>millis()\<close> is an \<open>unsigned long\<close>, so every
  \<open>now - earlier\<close> below is subtraction modulo \<open>2 ^ 32\<close>.

  A \<open>float\<close> that is finite is modelled by the real number it denotes; the values the
  sketch compares (a sum of three squares and two constants) are always finite, and on
  finite floats \<open>>\<close> is the order of the reals.
\<close>

subsection \<open>Data\<close>

type_synonym ulong = "32 word"

datatype SystemState = STATE_MONITORING | STATE_JUDGING | STATE_ALARM

text \<open>The global variables of the sketch. \<open>motionHistory\<close> is the array \<open>bool[5]\<close>.\<close>

record state =
  currentState :: SystemState
  impactTime :: ulong
  btnWasLow :: bool
  btnPressStart :: ulong
  btnHeld :: bool
  motionHistory :: "bool list"
  lastDisplayTime :: ulong

text \<open>
  The values of the globals when \<open>loop\<close> first runs: the initialisers of the sketch,
  and zero (all \<open>false\<close>) for the array, which has static storage.
\<close>

definition initial_state :: state where
  "initial_state =
     \<lparr> currentState = STATE_MONITORING, impactTime = 0, btnWasLow = False,
       btnPressStart = 0, btnHeld = False, motionHistory = replicate 5 False,
       lastDisplayTime = 0 \<rparr>"

subsection \<open>Constants\<close>

text \<open>
  Rounding to binary32 (round to nearest, ties to even) of a non-negative number given
  as a count \<open>n\<close> of units that are a power of two: the 24 leading bits are kept.
  All numbers rounded below are far from the overflow and subnormal ranges.
\<close>

fun bit_len :: "nat \<Rightarrow> nat" where
  "bit_len n = (if n = 0 then 0 else Suc (bit_len (n div 2)))"

declare bit_len.simps [simp del]

definition f32_round :: "nat \<Rightarrow> nat" where
  "f32_round n =
     (if n < 2 ^ 24 then n
      else let s = bit_len n - 24; q = n div 2 ^ s; r = n mod 2 ^ s; h = 2 ^ (s - 1)
           in (if h < r \<or> (r = h \<and> odd q) then q + 1 else q) * 2 ^ s)"

definition IMPACT_THRESHOLD_G :: real where
  "IMPACT_THRESHOLD_G = 2"

text \<open>The literal \<open>1.3f\<close> is the binary32 number \<open>10905190 / 2 ^ 23\<close>.\<close>

definition STABILITY_THRESHOLD_G :: real where
  "STABILITY_THRESHOLD_G = 10905190 / 2 ^ 23"

definition JUDGE_WINDOW_MS :: ulong where
  "JUDGE_WINDOW_MS = 5000"

definition LONG_PRESS_MS :: ulong where
  "LONG_PRESS_MS = 2000"

definition REQUIRED_ACTIVE_SECONDS :: int where
  "REQUIRED_ACTIVE_SECONDS = 3"

definition DISPLAY_INTERVAL :: ulong where
  "DISPLAY_INTERVAL = 100"

definition IMPACT_SQ :: real where
  "IMPACT_SQ = IMPACT_THRESHOLD_G * IMPACT_THRESHOLD_G"

text \<open>
  The product of two floats is rounded to a float. \<open>2.0f * 2.0f\<close> is exact. The
  square of \<open>STABILITY_THRESHOLD_G\<close> is \<open>10905190 * 10905190\<close> units of
  \<open>2 ^ -46\<close>, and is rounded.
\<close>

definition STABILITY_SQ :: real where
  "STABILITY_SQ = real (f32_round (10905190 * 10905190)) / 2 ^ 46"

subsection \<open>Reading the sensor\<close>

text \<open>
  \<open>readAccelSqMagnitude\<close>: the argument is the content of the receive buffer of the
  bus after \<open>requestFrom\<close> (\<open>Wire.available()\<close> is its length, \<open>Wire.read()\<close>
  takes the bytes in order, the high byte of each axis first). A raw axis value is an
  \<open>int16_t\<close>; dividing it by \<open>16384.0f\<close> is exact; each product and each sum is
  rounded to a float. The numbers are counted in units of \<open>2 ^ -28\<close>.
\<close>

definition raw_axis :: "8 word \<Rightarrow> 8 word \<Rightarrow> int" where
  "raw_axis hi lo = sint (or (push_bit 8 (ucast hi)) (ucast lo) :: 16 word)"

definition square_units :: "int \<Rightarrow> nat" where
  "square_units raw = f32_round (nat (raw * raw))"

definition readAccelSqMagnitude :: "8 word list \<Rightarrow> real" where
  "readAccelSqMagnitude rx =
     (if length rx < 6 then 0
      else let ax = square_units (raw_axis (rx ! 0) (rx ! 1));
               ay = square_units (raw_axis (rx ! 2) (rx ! 3));
               az = square_units (raw_axis (rx ! 4) (rx ! 5))
           in real (f32_round (f32_round (ax + ay) + az)) / 2 ^ 28)"

subsection \<open>The state machine\<close>

text \<open>
  A store through \<open>motionHistory[i]\<close> with \<open>i\<close> in \<open>0..4\<close> sets a cell of the array.
  With any other index the sketch still executes the store: it writes one byte outside
  the array. Which object owns that byte is decided by the placement of the globals in
  memory, which the source does not fix. A placement is therefore an argument of the
  model: \<open>lay i v s\<close> are the globals after \<open>v\<close> was stored through the index \<open>i\<close>
  outside \<open>0..4\<close>, starting from the globals \<open>s\<close>. The five cells of the array are not
  among the bytes such an index reaches, so they keep their values. Every function of
  the state machine takes the placement first, and what is proved of it holds for every
  placement. (Memory that holds none of these globals, such as the stack, the registers
  and the objects of the libraries, is not modelled: \<open>elsewhere\<close> is the placement
  where the byte lands there.)
\<close>

type_synonym layout = "int \<Rightarrow> bool \<Rightarrow> state \<Rightarrow> state"

definition elsewhere :: layout where
  "elsewhere i v s = s"

definition array_store :: "layout \<Rightarrow> state \<Rightarrow> int \<Rightarrow> bool \<Rightarrow> state" where
  "array_store lay s i v =
     (if 0 \<le> i \<and> i < 5 then s\<lparr>motionHistory := (motionHistory s)[nat i := v]\<rparr>
      else (lay i v s)\<lparr>motionHistory := motionHistory s\<rparr>)"

text \<open>\<open>for(int i=0; i<5; i++) motionHistory[i] = false;\<close>\<close>

definition reset_history :: "layout \<Rightarrow> state \<Rightarrow> state" where
  "reset_history lay s = fold (\<lambda>i s. array_store lay s (int i) False) [0..<5] s"

text \<open>The counting loop of the timeout check.\<close>

definition activeCount :: "bool list \<Rightarrow> int" where
  "activeCount mh = fold (\<lambda>i c. if mh ! i then c + 1 else c) [0..<5] 0"

text \<open>
  \<open>int secondIndex = timeSinceImpact / 1000;\<close> the quotient is an \<open>unsigned long\<close>
  and is converted to the 16-bit \<open>int\<close>, which keeps its low 16 bits.
\<close>

definition secondIndex :: "ulong \<Rightarrow> int" where
  "secondIndex timeSinceImpact = sint (ucast (timeSinceImpact div 1000) :: 16 word)"

text \<open>
  Step 2 of \<open>loop\<close>, the \<open>switch\<close>: the new globals and the stores made, each with
  the value of \<open>currentState\<close> at the moment of the store, the index and the value
  stored. The guard of the marking store is \<open>secondIndex < 5\<close> and nothing else.
\<close>

type_synonym store = "SystemState \<times> int \<times> bool"

definition classify :: "layout \<Rightarrow> state \<Rightarrow> ulong \<Rightarrow> real \<Rightarrow> state \<times> store list" where
  "classify lay s now aMagSq =
     (case currentState s of
        STATE_MONITORING \<Rightarrow>
          if aMagSq > IMPACT_SQ then
            (reset_history lay (s\<lparr>currentState := STATE_JUDGING, impactTime := now\<rparr>),
             map (\<lambda>i. (STATE_JUDGING, int i, False)) [0..<5])
          else (s, [])
      | STATE_JUDGING \<Rightarrow>
          let timeSinceImpact = now - impactTime s;
              idx = secondIndex timeSinceImpact;
              mark = (idx < 5 \<and> aMagSq > STABILITY_SQ);
              s1 = (if mark then array_store lay s idx True else s);
              log = (if mark then [(STATE_JUDGING, idx, True)] else []);
              s2 = (if timeSinceImpact \<ge> JUDGE_WINDOW_MS then
                      (if activeCount (motionHistory s1) \<ge> REQUIRED_ACTIVE_SECONDS
                       then s1\<lparr>currentState := STATE_MONITORING\<rparr>
                       else s1\<lparr>currentState := STATE_ALARM\<rparr>)
                    else s1)
          in (s2, log)
      | STATE_ALARM \<Rightarrow> (s, []))"

text \<open>Step 3 of \<open>loop\<close>; \<open>pressed\<close> is \<open>btnState == LOW\<close>.\<close>

definition button_logic :: "state \<Rightarrow> ulong \<Rightarrow> bool \<Rightarrow> state" where
  "button_logic s now pressed =
     (if currentState s = STATE_ALARM then
        (if pressed then
           (let s1 = (if \<not> btnWasLow s then s\<lparr>btnWasLow := True, btnPressStart := now\<rparr>
                      else if now - btnPressStart s \<ge> LONG_PRESS_MS
                           then s\<lparr>currentState := STATE_MONITORING, btnWasLow := False\<rparr>
                           else s)
            in s1\<lparr>btnHeld := True\<rparr>)
         else s\<lparr>btnWasLow := False, btnHeld := False\<rparr>)
      else s\<lparr>btnWasLow := False, btnHeld := pressed\<rparr>)"

text \<open>
  Step 4 of \<open>loop\<close>: the level of the LED and the frequency of the tone, if any.
\<close>

definition hardware_output :: "state \<Rightarrow> ulong \<Rightarrow> bool \<times> nat option" where
  "hardware_output s now =
     (if currentState s = STATE_ALARM then
        (if (now div 300) mod 2 = 0 then (True, Some 2000) else (False, Some 1000))
      else (False, None))"

text \<open>
  Step 5 of \<open>loop\<close>: the throttle of the display. What is drawn and printed reads the
  globals and changes none of them but \<open>globalAMag\<close>, a copy of the sample for the
  display only, which is left out.
\<close>

definition ui_update :: "state \<Rightarrow> ulong \<Rightarrow> state" where
  "ui_update s now =
     (if now - lastDisplayTime s \<ge> DISPLAY_INTERVAL then s\<lparr>lastDisplayTime := now\<rparr> else s)"

text \<open>One iteration, given the clock, the sample and the button.\<close>

definition loop_body ::
  "layout \<Rightarrow> state \<Rightarrow> ulong \<Rightarrow> real \<Rightarrow> bool \<Rightarrow> state \<times> store list" where
  "loop_body lay s now aMagSq pressed =
     (let (s1, log) = classify lay s now aMagSq;
          s2 = button_logic s1 now pressed
      in (ui_update s2 now, log))"

text \<open>One iteration, given the clock, the bytes the sensor delivered and the button.\<close>

definition loop ::
  "layout \<Rightarrow> state \<Rightarrow> ulong \<Rightarrow> 8 word list \<Rightarrow> bool \<Rightarrow> state \<times> store list" where
  "loop lay s now rx pressed = loop_body lay s now (readAccelSqMagnitude rx) pressed"

text \<open>The globals after a sequence of iterations, and all the stores made.\<close>

type_synonym tick = "ulong \<times> real \<times> bool"

fun run :: "layout \<Rightarrow> state \<Rightarrow> tick list \<Rightarrow> state" where
  "run lay s [] = s"
| "run lay s ((now, aMagSq, pressed) # ts) =
     run lay (fst (loop_body lay s now aMagSq pressed)) ts"

fun stores :: "layout \<Rightarrow> state \<Rightarrow> tick list \<Rightarrow> store list" where
  "stores lay s [] = []"
| "stores lay s ((now, aMagSq, pressed) # ts) =
     snd (loop_body lay s now aMagSq pressed) @
     stores lay (fst (loop_body lay s now aMagSq pressed)) ts"

text \<open>
  The reading of the millisecond clock at the time \<open>T\<close> (in ms since start): the
  counter is 32 bits wide and wraps around.
\<close>

definition millis :: "nat \<Rightarrow> ulong" where
  "millis T = of_nat T"

section \<open>Basic facts\<close>

subsection \<open>The constants\<close>

lemma IMPACT_SQ_val: "IMPACT_SQ = 4"
  by (simp add: IMPACT_SQ_def IMPACT_THRESHOLD_G_def)

lemma STABILITY_THRESHOLD_G_product:
  "STABILITY_THRESHOLD_G * STABILITY_THRESHOLD_G = real (10905190 * 10905190) / 2 ^ 46"
  by (simp add: STABILITY_THRESHOLD_G_def)

lemma bit_len_product: "bit_len 118923168936100 = 47"
  by (simp add: bit_len.simps)

lemma f32_round_product: "f32_round (10905190 * 10905190) = 14176746 * 2 ^ 23"
  by (simp add: f32_round_def bit_len_product Let_def)

lemma STABILITY_SQ_val: "STABILITY_SQ = 14176746 / 2 ^ 23"
  unfolding STABILITY_SQ_def f32_round_product by simp

lemma STABILITY_SQ_pos: "0 < STABILITY_SQ"
  by (simp add: STABILITY_SQ_val)

lemma STABILITY_SQ_less_IMPACT_SQ: "STABILITY_SQ < IMPACT_SQ"
  by (simp add: STABILITY_SQ_val IMPACT_SQ_val)

subsection \<open>The array\<close>

lemma array_store_in_range:
  "0 \<le> i \<Longrightarrow> i < 5 \<Longrightarrow>
     array_store lay s i v = s\<lparr>motionHistory := (motionHistory s)[nat i := v]\<rparr>"
  by (simp add: array_store_def)

lemma array_store_outside:
  "i < 0 \<Longrightarrow> array_store lay s i v = (lay i v s)\<lparr>motionHistory := motionHistory s\<rparr>"
  by (simp add: array_store_def)

lemma motionHistory_array_store:
  "motionHistory (array_store lay s i v) =
     (if 0 \<le> i \<and> i < 5 then (motionHistory s)[nat i := v] else motionHistory s)"
  by (simp add: array_store_def)

lemma length_array_store [simp]:
  "length (motionHistory (array_store lay s i v)) = length (motionHistory s)"
  by (simp add: motionHistory_array_store)

lemma reset_history_unfold:
  "reset_history lay s =
     s\<lparr>motionHistory := (motionHistory s)[0 := False, 1 := False, 2 := False, 3 := False,
          4 := False]\<rparr>"
  by (simp add: reset_history_def array_store_def upt_rec numeral_eq_Suc)

lemma reset_history_replicate:
  "length (motionHistory s) = 5 \<Longrightarrow>
     reset_history lay s = s\<lparr>motionHistory := replicate 5 False\<rparr>"
  by (auto simp: reset_history_unfold length_Suc_conv numeral_eq_Suc)

lemma length_reset_history [simp]:
  "length (motionHistory (reset_history lay s)) = length (motionHistory s)"
  by (simp add: reset_history_unfold)

lemma activeCount_unfold:
  "activeCount mh =
     of_bool (mh ! 0) + of_bool (mh ! 1) + of_bool (mh ! 2) + of_bool (mh ! 3) + of_bool (mh ! 4)"
  by (simp add: activeCount_def upt_rec numeral_eq_Suc)

lemma activeCount_filter:
  "length mh = 5 \<Longrightarrow> activeCount mh = int (length (filter (\<lambda>b. b) mh))"
  by (auto simp: activeCount_unfold length_Suc_conv numeral_eq_Suc)

subsection \<open>Evaluation on explicit arrays\<close>

lemma list_update_Cons_numeral:
  "(x # xs)[numeral v := y] = x # xs[numeral v - 1 := y]"
  by (simp add: numeral_eq_Suc)

lemma replicate5: "replicate 5 False = [False, False, False, False, False]"
  by (simp add: numeral_eq_Suc)

lemma activeCount_5:
  "activeCount [a, b, c, d, e] = of_bool a + of_bool b + of_bool c + of_bool d + of_bool e"
  by (simp add: activeCount_unfold)

lemma initial_state_val:
  "initial_state =
     \<lparr> currentState = STATE_MONITORING, impactTime = 0, btnWasLow = False,
       btnPressStart = 0, btnHeld = False,
       motionHistory = [False, False, False, False, False], lastDisplayTime = 0 \<rparr>"
  by (simp add: initial_state_def replicate5)

lemmas eval_defs = loop_body_def classify_def button_logic_def ui_update_def
  secondIndex_def array_store_def activeCount_5 reset_history_unfold list_update_Cons_numeral
  JUDGE_WINDOW_MS_def LONG_PRESS_MS_def REQUIRED_ACTIVE_SECONDS_def DISPLAY_INTERVAL_def
  IMPACT_SQ_val STABILITY_SQ_val Let_def initial_state_val

subsection \<open>The steps of an iteration\<close>

lemma ui_update_fields [simp]:
  "currentState (ui_update s now) = currentState s"
  "impactTime (ui_update s now) = impactTime s"
  "btnWasLow (ui_update s now) = btnWasLow s"
  "btnPressStart (ui_update s now) = btnPressStart s"
  "btnHeld (ui_update s now) = btnHeld s"
  "motionHistory (ui_update s now) = motionHistory s"
  by (simp_all add: ui_update_def)

lemma button_logic_frame [simp]:
  "impactTime (button_logic s now pressed) = impactTime s"
  "motionHistory (button_logic s now pressed) = motionHistory s"
  "lastDisplayTime (button_logic s now pressed) = lastDisplayTime s"
  by (simp_all add: button_logic_def Let_def)

lemma button_logic_not_alarm:
  "currentState s \<noteq> STATE_ALARM \<Longrightarrow>
     button_logic s now pressed = s\<lparr>btnWasLow := False, btnHeld := pressed\<rparr>"
  by (simp add: button_logic_def)

lemma classify_monitoring:
  "currentState s = STATE_MONITORING \<Longrightarrow>
     classify lay s now a =
       (if IMPACT_SQ < a
        then (reset_history lay (s\<lparr>currentState := STATE_JUDGING, impactTime := now\<rparr>),
              map (\<lambda>i. (STATE_JUDGING, int i, False)) [0..<5])
        else (s, []))"
  by (simp add: classify_def)

lemma classify_judging:
  "currentState s = STATE_JUDGING \<Longrightarrow>
     classify lay s now a =
       (let idx = secondIndex (now - impactTime s);
            mark = (idx < 5 \<and> STABILITY_SQ < a);
            s1 = (if mark then array_store lay s idx True else s)
        in (if 5000 \<le> now - impactTime s
            then (if 3 \<le> activeCount (motionHistory s1)
                  then s1\<lparr>currentState := STATE_MONITORING\<rparr>
                  else s1\<lparr>currentState := STATE_ALARM\<rparr>)
            else s1,
            if mark then [(STATE_JUDGING, idx, True)] else []))"
  by (simp add: classify_def Let_def JUDGE_WINDOW_MS_def REQUIRED_ACTIVE_SECONDS_def)

lemma classify_alarm:
  "currentState s = STATE_ALARM \<Longrightarrow> classify lay s now a = (s, [])"
  by (simp add: classify_def)

lemma length_classify [simp]:
  "length (motionHistory (fst (classify lay s now a))) = length (motionHistory s)"
  by (cases "currentState s") (simp_all add: classify_def Let_def)

text \<open>
  The \<open>switch\<close> leaves the globals of the button and of the display alone when it makes
  no store outside the array: in \<open>STATE_JUDGING\<close>, when the index is not negative or the
  sample is not above the stability threshold.
\<close>

lemma classify_frame:
  assumes "currentState s = STATE_JUDGING \<longrightarrow>
             0 \<le> secondIndex (now - impactTime s) \<or> a \<le> STABILITY_SQ"
  shows "btnWasLow (fst (classify lay s now a)) = btnWasLow s"
    and "btnPressStart (fst (classify lay s now a)) = btnPressStart s"
    and "btnHeld (fst (classify lay s now a)) = btnHeld s"
    and "lastDisplayTime (fst (classify lay s now a)) = lastDisplayTime s"
  using assms
  by (cases "currentState s";
      auto simp add: classify_def Let_def reset_history_unfold array_store_def)+

lemma loop_body_fst:
  "fst (loop_body lay s now a pressed) =
     ui_update (button_logic (fst (classify lay s now a)) now pressed) now"
  by (simp add: loop_body_def split_beta)

lemma loop_body_snd: "snd (loop_body lay s now a pressed) = snd (classify lay s now a)"
  by (simp add: loop_body_def split_beta)

lemma loop_body_length [simp]:
  "length (motionHistory (fst (loop_body lay s now a pressed))) = length (motionHistory s)"
  by (simp add: loop_body_fst)

lemma run_append: "run lay s (ts @ us) = run lay (run lay s ts) us"
  by (induction lay s ts rule: run.induct) simp_all

lemma length_run [simp]:
  "length (motionHistory (run lay s ts)) = length (motionHistory s)"
  by (induction lay s ts rule: run.induct) simp_all

lemma length_initial [simp]: "length (motionHistory initial_state) = 5"
  by (simp add: initial_state_def)

text \<open>No press edge is pending when an iteration ends outside \<open>STATE_ALARM\<close>.\<close>

lemma no_edge_outside_alarm:
  "currentState (fst (loop_body lay s now a pressed)) \<noteq> STATE_ALARM \<Longrightarrow>
     \<not> btnWasLow (fst (loop_body lay s now a pressed))"
  by (auto simp add: loop_body_fst button_logic_def Let_def split: if_splits)

lemma no_edge_outside_alarm_run:
  "currentState (run lay initial_state ts) \<noteq> STATE_ALARM \<Longrightarrow>
     \<not> btnWasLow (run lay initial_state ts)"
proof (induction ts rule: rev_induct)
  case Nil
  then show ?case by (simp add: initial_state_def)
next
  case (snoc x xs)
  obtain now a pressed where x: "x = (now, a, pressed)" by (cases x)
  from snoc.prems show ?case
    by (simp add: x run_append no_edge_outside_alarm)
qed

subsection \<open>Clock and index arithmetic\<close>

lemma sint_ucast_small:
  fixes q :: "32 word"
  assumes "unat q < 32768"
  shows "sint (ucast q :: 16 word) = int (unat q)"
proof -
  have "uint q = int (unat q)"
    by simp
  with assms have u: "uint q < 32768"
    by linarith
  have "uint (ucast q :: 16 word) = take_bit 16 (uint q)"
    by (simp add: unsigned_ucast_eq)
  also have "\<dots> = uint q"
    using u by (simp add: take_bit_int_eq_self)
  finally have e: "uint (ucast q :: 16 word) = uint q" .
  have "sint (ucast q :: 16 word) = signed_take_bit 15 (uint q)"
    by (simp add: sint_uint e)
  also have "\<dots> = uint q"
  proof (rule signed_take_bit_int_eq_self)
    have "(0::int) \<le> uint q" by simp
    then show "- (2 ^ 15) \<le> uint q" by (rule order_trans [rotated]) simp
    show "uint q < 2 ^ 15" using u by simp
  qed
  finally show ?thesis by simp
qed

lemma secondIndex_small:
  assumes "unat d < 32768000"
  shows "secondIndex d = int (unat d div 1000)"
proof -
  have q: "unat (d div 1000) = unat d div 1000"
    by (simp add: unat_div)
  with assms have "unat (d div 1000) < 32768" by simp
  then show ?thesis
    by (simp add: secondIndex_def sint_ucast_small q)
qed

text \<open>A negative index needs 32768000 ms or more since the impact: the window is over.\<close>

lemma secondIndex_negative:
  assumes "secondIndex d < 0"
  shows "32768000 \<le> unat d" and "5000 \<le> d"
proof -
  show l: "32768000 \<le> unat d"
  proof (rule ccontr)
    assume "\<not> 32768000 \<le> unat d"
    then have "secondIndex d = int (unat d div 1000)"
      by (simp add: secondIndex_small)
    with assms show False by simp
  qed
  then show "5000 \<le> d"
    by (simp add: word_le_nat_alt)
qed

lemma secondIndex_in_window:
  assumes "d < 5000"
  shows "0 \<le> secondIndex d" and "secondIndex d < 5"
proof -
  from assms have u: "unat d < 5000"
    by (simp add: word_less_nat_alt)
  then have "secondIndex d = int (unat d div 1000)"
    by (simp add: secondIndex_small)
  with u show "0 \<le> secondIndex d" and "secondIndex d < 5"
    by simp_all
qed

lemma unat_millis_diff:
  assumes "T0 \<le> T1" and "T1 - T0 < 2 ^ 32"
  shows "unat (millis T1 - millis T0) = T1 - T0"
proof -
  have "millis T1 - millis T0 = (of_nat (T1 - T0) :: 32 word)"
    using assms(1) by (simp add: millis_def)
  then show ?thesis
    using assms(2) by (simp add: unat_of_nat)
qed

section \<open>Monitoring (C2, C4)\<close>

text \<open>
  C2. In \<open>STATE_MONITORING\<close>, a sample whose squared magnitude is above 4.0 makes the
  state \<open>STATE_JUDGING\<close>, records the clock of this iteration in \<open>impactTime\<close> and
  makes the five buckets false; a sample that is not above 4.0 leaves the state,
  \<open>impactTime\<close> and the buckets as they were (the \<open>switch\<close> changes no global at all).
\<close>

theorem monitoring_impact_entry:
  assumes "currentState s = STATE_MONITORING" and "length (motionHistory s) = 5"
  shows "fst (classify lay s now a) =
           (if 4 < a
            then s\<lparr>currentState := STATE_JUDGING, impactTime := now,
                   motionHistory := replicate 5 False\<rparr>
            else s) \<and>
         currentState (fst (loop_body lay s now a pressed)) =
           (if 4 < a then STATE_JUDGING else STATE_MONITORING) \<and>
         impactTime (fst (loop_body lay s now a pressed)) = (if 4 < a then now else impactTime s) \<and>
         motionHistory (fst (loop_body lay s now a pressed)) =
           (if 4 < a then replicate 5 False else motionHistory s)"
  using assms
  by (simp add: loop_body_fst classify_monitoring IMPACT_SQ_val reset_history_replicate
        button_logic_not_alarm)

theorem monitoring_impact_entry_witness:
  "currentState initial_state = STATE_MONITORING \<and> length (motionHistory initial_state) = 5 \<and>
   fst (classify elsewhere initial_state 1234 5) =
     initial_state\<lparr>currentState := STATE_JUDGING, impactTime := 1234\<rparr> \<and>
   currentState (fst (loop_body elsewhere initial_state 1234 5 False)) = STATE_JUDGING \<and>
   impactTime (fst (loop_body elsewhere initial_state 1234 5 False)) = 1234 \<and>
   motionHistory (fst (loop_body elsewhere initial_state 1234 5 False)) = replicate 5 False \<and>
   fst (classify elsewhere initial_state 1234 4) = initial_state \<and>
   currentState (fst (loop_body elsewhere initial_state 1234 4 False)) = STATE_MONITORING"
proof -
  have 1: "currentState initial_state = STATE_MONITORING" by (simp add: initial_state_def)
  have 2: "length (motionHistory initial_state) = 5" by (simp add: initial_state_def)
  from monitoring_impact_entry [OF 1 2, where lay = elsewhere and now = 1234 and a = 5
         and pressed = False]
       monitoring_impact_entry [OF 1 2, where lay = elsewhere and now = 1234 and a = 4
         and pressed = False] 1 2
  show ?thesis
    by (simp add: initial_state_def)
qed

lemma monitoring_stays:
  "currentState s = STATE_MONITORING \<Longrightarrow> a \<le> 4 \<Longrightarrow>
     currentState (fst (loop_body lay s now a pressed)) = STATE_MONITORING"
  by (simp add: loop_body_fst classify_monitoring IMPACT_SQ_val button_logic_not_alarm)

text \<open>
  C4. From \<open>STATE_MONITORING\<close>, after any number of iterations whose samples are all at
  most 4.0, whatever the clock and the button, the state is \<open>STATE_MONITORING\<close>: it
  is so after every prefix \<open>take n ts\<close> of the iterations.
\<close>

theorem no_impact_stays_monitoring:
  assumes "currentState s = STATE_MONITORING"
    and "\<forall>(now, a, pressed) \<in> set ts. a \<le> 4"
  shows "currentState (run lay s (take n ts)) = STATE_MONITORING"
  using assms
proof (induction lay s ts arbitrary: n rule: run.induct)
  case (1 lay s)
  then show ?case by simp
next
  case (2 lay s now a pressed ts)
  show ?case
  proof (cases n)
    case 0
    with 2 show ?thesis by simp
  next
    case (Suc m)
    from 2 have "currentState (fst (loop_body lay s now a pressed)) = STATE_MONITORING"
      by (simp add: monitoring_stays)
    with 2 Suc show ?thesis by simp
  qed
qed

theorem no_impact_stays_monitoring_witness:
  "currentState initial_state = STATE_MONITORING \<and>
   currentState (run elsewhere initial_state
     [(0, 1, False), (70000, 4, True), (4294967295, 0, True)]) = STATE_MONITORING"
proof -
  let ?ts = "[(0, 1, False), (70000, 4, True), (4294967295, 0, True)] :: tick list"
  have 1: "currentState initial_state = STATE_MONITORING" by (simp add: initial_state_def)
  have 2: "\<forall>(now, a, pressed) \<in> set ?ts. a \<le> 4" by simp
  from no_impact_stays_monitoring [OF 1 2, where lay = elsewhere and n = 3] 1
  show ?thesis by simp
qed

section \<open>The judging window (C1)\<close>

lemma judging_early_step:
  assumes "currentState s = STATE_JUDGING" and "now - impactTime s < 5000"
  shows "currentState (fst (loop_body lay s now a pressed)) = STATE_JUDGING"
    and "impactTime (fst (loop_body lay s now a pressed)) = impactTime s"
  using assms secondIndex_in_window [OF assms(2)]
  by (simp_all add: loop_body_fst classify_judging Let_def button_logic_not_alarm not_le
        array_store_in_range)

lemma judging_early_run:
  assumes "currentState s = STATE_JUDGING"
    and "\<forall>(t, a, p) \<in> set ts. t - impactTime s < 5000"
  shows "currentState (run lay s ts) = STATE_JUDGING \<and> impactTime (run lay s ts) = impactTime s"
  using assms
proof (induction lay s ts rule: run.induct)
  case (1 lay s)
  then show ?case by simp
next
  case (2 lay s now a pressed ts)
  from 2 have e: "now - impactTime s < 5000" by simp
  note st = judging_early_step [OF "2.prems"(1) e, where lay = lay and a = a
      and pressed = pressed]
  with 2 show ?case by simp
qed

lemma judging_late_classify:
  assumes "currentState s = STATE_JUDGING" and "5000 \<le> now - impactTime s"
  shows "currentState (fst (classify lay s now a)) =
           (if 3 \<le> activeCount (motionHistory (fst (classify lay s now a)))
            then STATE_MONITORING else STATE_ALARM)"
  using assms by (simp add: classify_judging Let_def)

text \<open>
  The button step keeps the decision of the \<open>switch\<close>, unless the \<open>switch\<close> stored
  outside the array with the button down.
\<close>

lemma button_keeps_decision:
  assumes "currentState s \<noteq> STATE_ALARM" and "\<not> btnWasLow s"
    and "0 \<le> secondIndex (now - impactTime s) \<or> a \<le> STABILITY_SQ \<or> \<not> pressed"
  shows "currentState (fst (loop_body lay s now a pressed)) =
           currentState (fst (classify lay s now a))"
proof (cases pressed)
  case False
  then show ?thesis
    by (simp add: loop_body_fst button_logic_def)
next
  case True
  with assms(3) have "currentState s = STATE_JUDGING \<longrightarrow>
      0 \<le> secondIndex (now - impactTime s) \<or> a \<le> STABILITY_SQ"
    by simp
  from classify_frame(1) [OF this, of lay] assms(2)
  have "\<not> btnWasLow (fst (classify lay s now a))" by simp
  then show ?thesis
    by (simp add: loop_body_fst button_logic_def)
qed

text \<open>
  C1. Let the sketch have run the iterations \<open>ts0\<close> from its start and be in
  \<open>STATE_JUDGING\<close>, with the impact recorded in \<open>impactTime\<close>. Let the samples
  \<open>ts\<close> all come less than 5000 ms after the recorded impact and the next sample come
  5000 ms or more after it, whatever the samples, the button and the placement of the
  globals are. Then the state is still \<open>STATE_JUDGING\<close> after \<open>ts\<close>, and on that
  next sample the \<open>switch\<close> finalizes the window: it sets the state to
  \<open>STATE_MONITORING\<close> if \<open>activeCount\<close>, which is the number of true buckets, is at
  least 3, and to \<open>STATE_ALARM\<close> otherwise. The iteration ends with these buckets, and
  with this state when it made no store outside the array or the button is up.
\<close>

theorem judging_window_finalize:
  assumes "currentState (run lay initial_state ts0) = STATE_JUDGING"
    and "\<forall>(t, a, p) \<in> set ts. t - impactTime (run lay initial_state ts0) < 5000"
    and "5000 \<le> now - impactTime (run lay initial_state ts0)"
  shows "currentState (run lay initial_state (ts0 @ ts)) = STATE_JUDGING \<and>
         (let c = fst (classify lay (run lay initial_state (ts0 @ ts)) now a);
              e = run lay initial_state (ts0 @ ts @ [(now, a, pressed)])
          in currentState c =
               (if 3 \<le> activeCount (motionHistory c) then STATE_MONITORING else STATE_ALARM) \<and>
             activeCount (motionHistory c) = int (length (filter (\<lambda>b. b) (motionHistory c))) \<and>
             motionHistory e = motionHistory c \<and>
             (0 \<le> secondIndex (now - impactTime (run lay initial_state ts0)) \<or>
              a \<le> STABILITY_SQ \<or> \<not> pressed \<longrightarrow> currentState e = currentState c))"
proof -
  let ?s = "run lay initial_state (ts0 @ ts)"
  have r: "currentState ?s = STATE_JUDGING \<and>
           impactTime ?s = impactTime (run lay initial_state ts0)"
    using judging_early_run [OF assms(1) assms(2)] by (simp add: run_append)
  then have late: "5000 \<le> now - impactTime ?s"
    using assms(3) by simp
  have nb: "\<not> btnWasLow ?s"
    using r by (intro no_edge_outside_alarm_run) simp
  have na: "currentState ?s \<noteq> STATE_ALARM"
    using r by simp
  have e: "run lay initial_state (ts0 @ ts @ [(now, a, pressed)]) =
      fst (loop_body lay ?s now a pressed)"
    by (simp add: run_append)
  have d: "currentState (fst (classify lay ?s now a)) =
      (if 3 \<le> activeCount (motionHistory (fst (classify lay ?s now a)))
       then STATE_MONITORING else STATE_ALARM)"
    using r late by (intro judging_late_classify) simp_all
  have k: "0 \<le> secondIndex (now - impactTime (run lay initial_state ts0)) \<or>
      a \<le> STABILITY_SQ \<or> \<not> pressed \<longrightarrow>
      currentState (fst (loop_body lay ?s now a pressed)) =
        currentState (fst (classify lay ?s now a))"
    using button_keeps_decision [OF na nb, where now = now and a = a and pressed = pressed
        and lay = lay] r
    by simp
  have m: "motionHistory (fst (loop_body lay ?s now a pressed)) =
      motionHistory (fst (classify lay ?s now a))"
    by (simp add: loop_body_fst)
  have f: "activeCount (motionHistory (fst (classify lay ?s now a))) =
      int (length (filter (\<lambda>b. b) (motionHistory (fst (classify lay ?s now a)))))"
    by (simp add: activeCount_filter)
  from r d f m k show ?thesis
    unfolding e Let_def by blast
qed

lemma judging_after_impact:
  "run lay initial_state [(0, 5, False)] = initial_state\<lparr>currentState := STATE_JUDGING\<rparr>"
  by (simp add: eval_defs)

lemma majority_false_alarm_run:
  "run lay initial_state
     [(0, 5, False), (100, 2, False), (1100, 2, False), (2100, 2, False), (5000, 1, False)]
   = \<lparr> currentState = STATE_MONITORING, impactTime = 0, btnWasLow = False,
       btnPressStart = 0, btnHeld = False, motionHistory = [True, True, True, False, False],
       lastDisplayTime = 5000 \<rparr>"
  by (simp add: eval_defs)

lemma minority_fall_confirmed_run:
  "run lay initial_state
     [(0, 5, False), (100, 1, False), (1100, 2, False), (2100, 1, False), (5000, 1, False)]
   = \<lparr> currentState = STATE_ALARM, impactTime = 0, btnWasLow = False,
       btnPressStart = 0, btnHeld = False, motionHistory = [False, True, False, False, False],
       lastDisplayTime = 5000 \<rparr>"
  by (simp add: eval_defs)

lemma majority_before_timeout:
  "run lay initial_state [(0, 5, False), (100, 2, False), (1100, 2, False), (2100, 2, False)]
   = \<lparr> currentState = STATE_JUDGING, impactTime = 0, btnWasLow = False,
       btnPressStart = 0, btnHeld = False, motionHistory = [True, True, True, False, False],
       lastDisplayTime = 2100 \<rparr>"
  by (simp add: eval_defs)

theorem judging_window_finalize_witness:
  "currentState (run elsewhere initial_state
       [(0, 5, False), (100, 2, False), (1100, 2, False), (2100, 2, False)]) = STATE_JUDGING \<and>
   currentState (fst (classify elsewhere (run elsewhere initial_state
       [(0, 5, False), (100, 2, False), (1100, 2, False), (2100, 2, False)]) 5000 1))
     = STATE_MONITORING \<and>
   activeCount (motionHistory (fst (classify elsewhere (run elsewhere initial_state
       [(0, 5, False), (100, 2, False), (1100, 2, False), (2100, 2, False)]) 5000 1))) = 3 \<and>
   currentState (run elsewhere initial_state
       [(0, 5, False), (100, 2, False), (1100, 2, False), (2100, 2, False), (5000, 1, False)])
     = STATE_MONITORING"
proof -
  let ?pre = "[(0, 5, False)] :: tick list"
  let ?mid = "[(100, 2, False), (1100, 2, False), (2100, 2, False)] :: tick list"
  let ?c = "fst (classify elsewhere (run elsewhere initial_state
       [(0, 5, False), (100, 2, False), (1100, 2, False), (2100, 2, False)]) 5000 1)"
  have 1: "currentState (run elsewhere initial_state ?pre) = STATE_JUDGING"
    unfolding judging_after_impact by simp
  have 2: "\<forall>(t, a, p) \<in> set ?mid. t - impactTime (run elsewhere initial_state ?pre) < 5000"
    unfolding judging_after_impact by (simp add: initial_state_val)
  have 3: "5000 \<le> 5000 - impactTime (run elsewhere initial_state ?pre)"
    unfolding judging_after_impact by (simp add: initial_state_val)
  note th = judging_window_finalize [OF 1 2 3, where a = 1 and pressed = False,
      unfolded Let_def append.simps]
  from th have a: "currentState (run elsewhere initial_state
       [(0, 5, False), (100, 2, False), (1100, 2, False), (2100, 2, False)]) = STATE_JUDGING"
    by (rule conjunct1)
  have c: "activeCount (motionHistory ?c) = 3"
    unfolding majority_before_timeout
    by (simp add: classify_judging Let_def secondIndex_def activeCount_5)
  from th have "currentState ?c =
      (if 3 \<le> activeCount (motionHistory ?c) then STATE_MONITORING else STATE_ALARM)"
    by blast
  then have b: "currentState ?c = STATE_MONITORING"
    unfolding c by simp
  from th have "(1::real) \<le> STABILITY_SQ \<longrightarrow>
      currentState (run elsewhere initial_state
       [(0, 5, False), (100, 2, False), (1100, 2, False), (2100, 2, False), (5000, 1, False)])
      = currentState ?c"
    by blast
  then have d: "currentState (run elsewhere initial_state
       [(0, 5, False), (100, 2, False), (1100, 2, False), (2100, 2, False), (5000, 1, False)])
     = STATE_MONITORING"
    unfolding b by (simp add: STABILITY_SQ_val)
  from a b c d show ?thesis by blast
qed

section \<open>The long press (C3, C10)\<close>

lemma alarm_edge_step:
  assumes "currentState s = STATE_ALARM" and "\<not> btnWasLow s"
  shows "currentState (fst (loop_body lay s now a True)) = STATE_ALARM"
    and "btnWasLow (fst (loop_body lay s now a True))"
    and "btnPressStart (fst (loop_body lay s now a True)) = now"
  using assms by (simp_all add: loop_body_fst classify_alarm button_logic_def)

lemma alarm_hold_step:
  assumes "currentState s = STATE_ALARM" and "btnWasLow s"
  shows "currentState (fst (loop_body lay s now a True)) =
           (if 2000 \<le> now - btnPressStart s then STATE_MONITORING else STATE_ALARM)"
    and "now - btnPressStart s < 2000 \<Longrightarrow> btnWasLow (fst (loop_body lay s now a True))"
    and "now - btnPressStart s < 2000 \<Longrightarrow>
           btnPressStart (fst (loop_body lay s now a True)) = btnPressStart s"
  using assms
  by (auto simp add: loop_body_fst classify_alarm button_logic_def LONG_PRESS_MS_def)

lemma alarm_hold_run:
  assumes "currentState s = STATE_ALARM" and "btnWasLow s"
    and "\<forall>(t, a, p) \<in> set ts. p \<and> t - btnPressStart s < 2000"
  shows "currentState (run lay s ts) = STATE_ALARM \<and> btnWasLow (run lay s ts) \<and>
         btnPressStart (run lay s ts) = btnPressStart s"
  using assms
proof (induction lay s ts rule: run.induct)
  case (1 lay s)
  then show ?case by simp
next
  case (2 lay s now a pressed ts)
  from "2.prems" have p: "pressed" and e: "now - btnPressStart s < 2000" by simp_all
  note st = alarm_hold_step [OF "2.prems"(1,2), where now = now and lay = lay and a = a]
  from "2.prems" p e st
  have "currentState (run lay (fst (loop_body lay s now a pressed)) ts) = STATE_ALARM \<and>
        btnWasLow (run lay (fst (loop_body lay s now a pressed)) ts) \<and>
        btnPressStart (run lay (fst (loop_body lay s now a pressed)) ts) =
          btnPressStart (fst (loop_body lay s now a pressed))"
    by (intro "2.IH") (auto simp: not_le)
  with p e st show ?case by simp
qed

text \<open>
  C3. In \<open>STATE_ALARM\<close> with no press edge pending, let the button be down in the
  iteration at \<open>t0\<close> (the observed press edge) and in the iterations \<open>ts\<close> after it, all
  less than 2000 ms after \<open>t0\<close>: the state is still \<open>STATE_ALARM\<close> (so a hold of 1999 ms
  does not cancel). With the button still down in the next iteration, at \<open>t\<close>, the state
  becomes \<open>STATE_MONITORING\<close> exactly if \<open>t - t0\<close> is 2000 ms or more.
\<close>

theorem alarm_long_press_cancel:
  assumes "currentState s = STATE_ALARM" and "\<not> btnWasLow s"
    and "\<forall>(t, a, p) \<in> set ts. p \<and> t - t0 < 2000"
  shows "currentState (run lay s ((t0, a0, True) # ts)) = STATE_ALARM \<and>
         currentState (run lay s ((t0, a0, True) # ts @ [(t, a, True)])) =
           (if 2000 \<le> t - t0 then STATE_MONITORING else STATE_ALARM)"
proof -
  let ?s0 = "fst (loop_body lay s t0 a0 True)"
  note e = alarm_edge_step [OF assms(1,2), where lay = lay and now = t0 and a = a0]
  from assms(3) e have "\<forall>(t, a, p) \<in> set ts. p \<and> t - btnPressStart ?s0 < 2000"
    by simp
  note r = alarm_hold_run [OF e(1) e(2) this]
  have "run lay s ((t0, a0, True) # ts @ [(t, a, True)]) =
      fst (loop_body lay (run lay ?s0 ts) t a True)"
    by (simp add: run_append)
  with r e alarm_hold_step(1) [where s = "run lay ?s0 ts" and now = t and lay = lay and a = a]
  show ?thesis
    by simp
qed

theorem alarm_long_press_cancel_witness:
  "currentState (run elsewhere (initial_state\<lparr>currentState := STATE_ALARM\<rparr>)
     [(6000, 1, True), (7000, 1, True), (7999, 1, True)]) = STATE_ALARM \<and>
   currentState (run elsewhere (initial_state\<lparr>currentState := STATE_ALARM\<rparr>)
     [(6000, 1, True), (7000, 1, True), (7999, 1, True), (8000, 1, True)]) = STATE_MONITORING"
proof -
  let ?s = "initial_state\<lparr>currentState := STATE_ALARM\<rparr>"
  let ?ts = "[(7000, 1, True), (7999, 1, True)] :: tick list"
  have 1: "currentState ?s = STATE_ALARM" by simp
  have 2: "\<not> btnWasLow ?s" by (simp add: initial_state_val)
  have 3: "\<forall>(t, a, p) \<in> set ?ts. p \<and> t - 6000 < 2000" by simp
  from alarm_long_press_cancel [OF 1 2 3, where lay = elsewhere and ?a0.0 = 1 and t = 8000
      and a = 1]
  show ?thesis by simp
qed

text \<open>
  What holds of the entry into the alarm with the button down: after any iterations
  \<open>ts\<close> from the start of the sketch, when the iteration that enters \<open>STATE_ALARM\<close>
  makes no store outside the array, it records the press edge at its own clock reading,
  and the held button cancels the alarm exactly when 2000 ms or more have passed since.
\<close>

lemma enter_alarm_step:
  assumes "currentState s \<noteq> STATE_ALARM" and "\<not> btnWasLow s"
    and "0 \<le> secondIndex (now - impactTime s) \<or> a \<le> STABILITY_SQ"
    and "currentState (fst (loop_body lay s now a True)) = STATE_ALARM"
  shows "btnWasLow (fst (loop_body lay s now a True)) \<and>
         btnPressStart (fst (loop_body lay s now a True)) = now"
proof -
  from assms(3) have "currentState s = STATE_JUDGING \<longrightarrow>
      0 \<le> secondIndex (now - impactTime s) \<or> a \<le> STABILITY_SQ"
    by simp
  from classify_frame(1) [OF this, of lay] assms(2)
  have nb: "\<not> btnWasLow (fst (classify lay s now a))" by simp
  with assms(4) show ?thesis
    by (cases "currentState (fst (classify lay s now a)) = STATE_ALARM")
       (simp_all add: loop_body_fst button_logic_def)
qed

lemma alarm_entry_restarts_press:
  assumes "currentState (run lay initial_state ts) \<noteq> STATE_ALARM"
    and "0 \<le> secondIndex (now - impactTime (run lay initial_state ts)) \<or> a \<le> STABILITY_SQ"
    and "currentState (run lay initial_state (ts @ [(now, a, True)])) = STATE_ALARM"
    and "\<forall>(t, a, p) \<in> set hs. p \<and> t - now < 2000"
  shows "btnWasLow (run lay initial_state (ts @ [(now, a, True)])) \<and>
         btnPressStart (run lay initial_state (ts @ [(now, a, True)])) = now \<and>
         currentState (run lay initial_state (ts @ [(now, a, True)] @ hs)) = STATE_ALARM \<and>
         currentState (run lay initial_state (ts @ [(now, a, True)] @ hs @ [(t, a', True)])) =
           (if 2000 \<le> t - now then STATE_MONITORING else STATE_ALARM)"
proof -
  let ?s = "run lay initial_state ts"
  let ?s1 = "fst (loop_body lay ?s now a True)"
  have s1: "run lay initial_state (ts @ [(now, a, True)]) = ?s1"
    by (simp add: run_append)
  have nb: "\<not> btnWasLow ?s"
    using assms(1) by (rule no_edge_outside_alarm_run)
  from assms(3) have al: "currentState ?s1 = STATE_ALARM"
    by (simp add: s1)
  note e = enter_alarm_step [OF assms(1) nb assms(2) al]
  from assms(4) e have "\<forall>(t, a, p) \<in> set hs. p \<and> t - btnPressStart ?s1 < 2000"
    by simp
  note r = alarm_hold_run [OF al conjunct1 [OF e] this]
  have "run lay initial_state (ts @ [(now, a, True)] @ hs) = run lay ?s1 hs"
    by (simp add: run_append)
  moreover have "run lay initial_state (ts @ [(now, a, True)] @ hs @ [(t, a', True)]) =
      fst (loop_body lay (run lay ?s1 hs) t a' True)"
    by (simp add: run_append)
  ultimately show ?thesis
    using r e alarm_hold_step(1) [where s = "run lay ?s1 hs" and now = t and lay = lay and a = a']
      s1
    by simp
qed




text \<open>With \<open>btnWasLow\<close> placed 9 bytes before the array, for one.\<close>

lemma alarm_entry_cancelled_at_once:
  "run (\<lambda>i v s. if i = - 9 then s\<lparr>btnWasLow := v\<rparr> else s) initial_state
     [(0, 5, True), (65527000, 2, True)] =
   \<lparr> currentState = STATE_MONITORING, impactTime = 0, btnWasLow = False,
     btnPressStart = 0, btnHeld = True,
     motionHistory = [False, False, False, False, False], lastDisplayTime = 65527000 \<rparr>"
  by (simp add: eval_defs)

section \<open>The stores into the array (C5)\<close>

lemma bit_len_2_30: "bit_len 1073741824 = 31"
  by (simp add: bit_len.simps)

lemma bit_len_9_2_26: "bit_len 603979776 = 30"
  by (simp add: bit_len.simps)

lemma bit_len_5_2_28: "bit_len 1342177280 = 31"
  by (simp add: bit_len.simps)

lemma raw_axis_vals:
  "raw_axis 0x80 0 = - 32768" "raw_axis 0x40 0 = 16384" "raw_axis 0 0 = 0"
  "raw_axis 0x60 0 = 24576"
  by (simp_all add: raw_axis_def)

lemma square_units_vals:
  "square_units (- 32768) = 1073741824" "square_units 16384 = 268435456"
  "square_units 0 = 0" "square_units 24576 = 603979776"
  by (simp_all add: square_units_def f32_round_def Let_def bit_len_2_30 bit_len_9_2_26
        bit_len.simps)

lemma f32_sums:
  "f32_round 1342177280 = 1342177280" "f32_round 603979776 = 603979776" "f32_round 0 = 0"
  by (simp_all add: f32_round_def Let_def bit_len_5_2_28 bit_len_9_2_26)

lemma read_impact: "readAccelSqMagnitude [0x80, 0, 0x40, 0, 0, 0] = 5"
  by (simp add: readAccelSqMagnitude_def raw_axis_vals square_units_vals f32_sums)

lemma read_motion: "readAccelSqMagnitude [0x60, 0, 0, 0, 0, 0] = 9 / 4"
  by (simp add: readAccelSqMagnitude_def raw_axis_vals square_units_vals f32_sums)

lemma stores_while_judging:
  "(st, i, v) \<in> set (snd (classify lay s now a)) \<Longrightarrow> st = STATE_JUDGING"
  by (cases "currentState s") (auto simp: classify_def Let_def split: if_splits)

lemma stores_below_5:
  "(st, i, v) \<in> set (snd (classify lay s now a)) \<Longrightarrow> i < 5"
  by (cases "currentState s") (auto simp: classify_def Let_def split: if_splits)

lemma stores_in_window:
  assumes "(st, i, v) \<in> set (snd (classify lay s now a))"
    and "unat (now - impactTime s) < 32768000"
  shows "0 \<le> i \<and> i < 5"
proof (cases "currentState s")
  case STATE_MONITORING
  with assms(1) show ?thesis
    by (auto simp: classify_monitoring split: if_splits)
next
  case STATE_JUDGING
  with assms(1) have "i = secondIndex (now - impactTime s)" and "i < 5"
    by (auto simp: classify_judging Let_def split: if_splits)
  with assms(2) show ?thesis
    by (simp add: secondIndex_small)
next
  case STATE_ALARM
  with assms(1) show ?thesis
    by (simp add: classify_alarm)
qed

lemma stores_of_run:
  "(st, i, v) \<in> set (stores lay s ts) \<Longrightarrow> st = STATE_JUDGING \<and> i < 5"
proof (induction lay s ts rule: stores.induct)
  case (1 lay s)
  then show ?case by simp
next
  case (2 lay s now aMagSq pressed ts)
  then show ?case
    by (auto simp: loop_body_snd dest: stores_while_judging stores_below_5)
qed

lemma first_loop_impact:
  "fst (loop lay initial_state 1200 [0x80, 0, 0x40, 0, 0, 0] False) =
   initial_state\<lparr>currentState := STATE_JUDGING, impactTime := 1200,
     lastDisplayTime := 1200\<rparr>"
  by (simp add: loop_def read_impact eval_defs)

lemma secondIndex_32768000: "secondIndex 32768000 = - 32768"
  by (simp add: secondIndex_def)

text \<open>
  C5. The property is that the array is stored into only in \<open>STATE_JUDGING\<close> and only
  at the indices 0 to 4, an index out of this range being ignored. It fails at the lower
  bound. The guard of the store is \<open>secondIndex < 5\<close> alone, and \<open>secondIndex\<close> is a
  16-bit \<open>int\<close>: it is negative when the quotient \<open>timeSinceImpact / 1000\<close> has bit 15
  set. From the start of the sketch, an impact in the iteration at 1200 ms and then a
  sample with motion in the next iteration, 32768000 ms later, give the index -32768,
  which passes the guard, and the iteration stores \<open>true\<close> through
  \<open>motionHistory[-32768]\<close>, outside the array. (The lemmas above give what does hold:
  every store is made with the state \<open>STATE_JUDGING\<close>, none has an index of 5 or more,
  and all indices are in 0..4 when less than 32768000 ms have passed since the impact.)
\<close>

theorem store_outside_window:
  "snd (loop lay (fst (loop lay initial_state 1200 [0x80, 0, 0x40, 0, 0, 0] False))
             32769200 [0x60, 0, 0, 0, 0, 0] False)
   = [(STATE_JUDGING, - 32768, True)]"
  unfolding first_loop_impact
  by (simp add: loop_def read_motion loop_body_snd classify_judging
        initial_state_val secondIndex_32768000 STABILITY_SQ_val Let_def)

section \<open>A second impact (C6)\<close>

text \<open>
  What holds of a sample above 4.0 that arrives in \<open>STATE_JUDGING\<close> or
  \<open>STATE_ALARM\<close>, when its index is not negative: the iteration leaves \<open>impactTime\<close>
  as it was. In \<open>STATE_ALARM\<close> the \<open>switch\<close> changes nothing and stores nothing. In
  \<open>STATE_JUDGING\<close> the sample is treated as any sample above the stability threshold
  would be, and the array after the iteration is the array before it, but for the bucket
  \<open>secondIndex\<close> of the sample, set to true when that index is below 5: no bucket goes
  back to false.
\<close>

lemma second_impact_no_restart:
  assumes "4 < a"
    and "currentState s = STATE_JUDGING \<or> currentState s = STATE_ALARM"
    and "length (motionHistory s) = 5"
    and "currentState s = STATE_JUDGING \<longrightarrow> 0 \<le> secondIndex (now - impactTime s)"
  shows "impactTime (fst (loop_body lay s now a pressed)) = impactTime s \<and>
         (currentState s = STATE_ALARM \<longrightarrow>
            classify lay s now a = (s, []) \<and>
            motionHistory (fst (loop_body lay s now a pressed)) = motionHistory s) \<and>
         (currentState s = STATE_JUDGING \<longrightarrow>
            (\<forall>a'. STABILITY_SQ < a' \<longrightarrow> classify lay s now a' = classify lay s now a) \<and>
            motionHistory (fst (loop_body lay s now a pressed)) =
              (if secondIndex (now - impactTime s) < 5
               then (motionHistory s)[nat (secondIndex (now - impactTime s)) := True]
               else motionHistory s) \<and>
            (\<forall>i < 5. motionHistory s ! i \<longrightarrow>
               motionHistory (fst (loop_body lay s now a pressed)) ! i))"
proof -
  have st: "STABILITY_SQ < a"
    using assms(1) STABILITY_SQ_less_IMPACT_SQ by (simp add: IMPACT_SQ_val)
  show ?thesis
  proof (cases "currentState s = STATE_ALARM")
    case True
    then show ?thesis
      by (simp add: loop_body_fst classify_alarm)
  next
    case False
    with assms(2) have j: "currentState s = STATE_JUDGING" by simp
    with assms(4) have nn: "0 \<le> secondIndex (now - impactTime s)" by simp
    have 1: "impactTime (fst (loop_body lay s now a pressed)) = impactTime s"
      using j nn by (simp add: loop_body_fst classify_judging Let_def array_store_def)
    have 2: "\<forall>a'. STABILITY_SQ < a' \<longrightarrow> classify lay s now a' = classify lay s now a"
      using j st by (simp add: classify_judging)
    have 3: "motionHistory (fst (loop_body lay s now a pressed)) =
              (if secondIndex (now - impactTime s) < 5
               then (motionHistory s)[nat (secondIndex (now - impactTime s)) := True]
               else motionHistory s)"
      using j st nn
      by (simp add: loop_body_fst classify_judging Let_def array_store_def)
    have 4: "\<forall>i < 5. motionHistory s ! i \<longrightarrow>
        motionHistory (fst (loop_body lay s now a pressed)) ! i"
      using assms(3) by (auto simp add: 3 nth_list_update)
    from j 1 2 3 4 show ?thesis by simp
  qed
qed

lemma secondIndex_65526000: "secondIndex 65526000 = - 10"
  by (simp add: secondIndex_def)

text \<open>
  C6. The property is that a sample above 4.0 arriving in \<open>STATE_JUDGING\<close> leaves
  \<open>impactTime\<close> unchanged and marks at most its bucket. It fails when the index of the
  sample is negative. From the start of the sketch, an impact in the iteration at 0 ms
  and a second sample above 4.0 in the next iteration, 65526000 ms later: the index is
  -10, the \<open>switch\<close> stores \<open>true\<close> through \<open>motionHistory[-10]\<close>, and
  \<open>impactTime\<close> after the iteration is what that store made of it: with the globals
  placed in the order of their declarations the byte belongs to \<open>impactTime\<close>.
\<close>

theorem second_impact_stray_store:
  "snd (loop_body lay (run lay initial_state [(0, 5, False)]) 65526000 5 False) =
     [(STATE_JUDGING, - 10, True)] \<and>
   impactTime (run lay initial_state [(0, 5, False), (65526000, 5, False)]) =
     impactTime (lay (- 10) True (run lay initial_state [(0, 5, False)]))"
proof -
  let ?j = "initial_state\<lparr>currentState := STATE_JUDGING\<rparr>"
  have c: "classify lay ?j 65526000 5 =
      ((lay (- 10) True ?j)\<lparr>motionHistory := motionHistory ?j, currentState := STATE_ALARM\<rparr>,
       [(STATE_JUDGING, - 10, True)])"
    by (simp add: classify_judging Let_def initial_state_val secondIndex_65526000
          STABILITY_SQ_val array_store_outside activeCount_5)
  have r: "run lay initial_state [(0, 5, False), (65526000, 5, False)] =
      fst (loop_body lay ?j 65526000 5 False)"
    using judging_after_impact [of lay] by simp
  show ?thesis
    unfolding r judging_after_impact
    by (simp add: c loop_body_fst loop_body_snd)
qed

text \<open>With the top byte of \<open>impactTime\<close> placed 10 bytes before the array, for one.\<close>

lemma second_impact_changes_impactTime:
  "impactTime (run (\<lambda>i v s. if i = - 10
       then s\<lparr>impactTime := or (and (impactTime s) 0x00FFFFFF) 0x01000000\<rparr> else s)
     initial_state [(0, 5, False), (65526000, 5, False)]) = 16777216"
  by (simp add: eval_defs)

section \<open>A failed read of the sensor (C7)\<close>

text \<open>
  What holds of a failed read: when fewer than 6 bytes are available,
  \<open>readAccelSqMagnitude\<close> returns 0.0, and the iteration goes on as for any sample
  without motion. It makes no store at all, so none outside the array, and leaves the
  array and \<open>impactTime\<close> as they were; from \<open>STATE_MONITORING\<close> the \<open>switch\<close>
  changes no global, so the state is still \<open>STATE_MONITORING\<close>.
\<close>

lemma failed_read_is_no_motion:
  assumes "length rx < 6"
  shows "readAccelSqMagnitude rx = 0 \<and>
         snd (loop lay s now rx pressed) = [] \<and>
         motionHistory (fst (loop lay s now rx pressed)) = motionHistory s \<and>
         impactTime (fst (loop lay s now rx pressed)) = impactTime s \<and>
         (currentState s = STATE_MONITORING \<longrightarrow>
            fst (classify lay s now (readAccelSqMagnitude rx)) = s \<and>
            currentState (fst (loop lay s now rx pressed)) = STATE_MONITORING)"
proof -
  have z: "readAccelSqMagnitude rx = 0"
    using assms by (simp add: readAccelSqMagnitude_def)
  have c: "snd (classify lay s now 0) = [] \<and>
           motionHistory (fst (classify lay s now 0)) = motionHistory s \<and>
           impactTime (fst (classify lay s now 0)) = impactTime s"
    using STABILITY_SQ_pos
    by (cases "currentState s")
       (simp_all add: classify_monitoring classify_judging classify_alarm IMPACT_SQ_val Let_def)
  have m: "currentState s = STATE_MONITORING \<longrightarrow> fst (classify lay s now 0) = s"
    by (simp add: classify_monitoring IMPACT_SQ_val)
  from c m show ?thesis
    by (auto simp add: z loop_def loop_body_fst loop_body_snd button_logic_not_alarm)
qed



section \<open>The clock wraps around (C8)\<close>

text \<open>
  C8. Let an earlier reading of the clock be taken at the time \<open>T0\<close> and a later one at
  \<open>T1\<close>, less than \<open>2 ^ 32\<close> ms after it; the counter may have wrapped in between.
  The difference of the two readings is the time that passed, \<open>T1 - T0\<close>. So with
  the impact recorded at \<open>T0\<close>, judging goes on exactly while less than 5000 ms have
  passed, and a sample in the window marks the bucket of the whole seconds passed; with
  the press edge recorded at \<open>T0\<close>, the held button cancels the alarm exactly when
  2000 ms or more have passed.
\<close>

theorem elapsed_time_wraps_safely:
  assumes "T0 \<le> T1" and "T1 - T0 < 2 ^ 32"
  shows "unat (millis T1 - millis T0) = T1 - T0 \<and>
         (currentState s = STATE_JUDGING \<and> impactTime s = millis T0 \<longrightarrow>
            (currentState (fst (classify lay s (millis T1) a)) = STATE_JUDGING
               \<longleftrightarrow> T1 - T0 < 5000) \<and>
            (T1 - T0 < 5000 \<longrightarrow>
               secondIndex (millis T1 - impactTime s) = int ((T1 - T0) div 1000))) \<and>
         (currentState s = STATE_ALARM \<and> btnWasLow s \<and> btnPressStart s = millis T0 \<longrightarrow>
            (currentState (button_logic s (millis T1) True) = STATE_MONITORING
               \<longleftrightarrow> 2000 \<le> T1 - T0))"
proof -
  have d: "unat (millis T1 - millis T0) = T1 - T0"
    using assms by (rule unat_millis_diff)
  have le5: "(5000 \<le> millis T1 - millis T0) = (5000 \<le> T1 - T0)"
    by (simp add: word_le_nat_alt d)
  have le2: "(2000 \<le> millis T1 - millis T0) = (2000 \<le> T1 - T0)"
    by (simp add: word_le_nat_alt d)
  have si: "T1 - T0 < 5000 \<longrightarrow>
      secondIndex (millis T1 - millis T0) = int ((T1 - T0) div 1000)"
    by (simp add: secondIndex_small d)
  have j: "currentState s = STATE_JUDGING \<and> impactTime s = millis T0 \<longrightarrow>
      (currentState (fst (classify lay s (millis T1) a)) = STATE_JUDGING \<longleftrightarrow> T1 - T0 < 5000)"
  proof (intro impI, elim conjE)
    assume js: "currentState s = STATE_JUDGING" and it: "impactTime s = millis T0"
    show "currentState (fst (classify lay s (millis T1) a)) = STATE_JUDGING \<longleftrightarrow> T1 - T0 < 5000"
    proof (cases "T1 - T0 < 5000")
      case True
      then have w: "millis T1 - impactTime s < 5000"
        using le5 it by (simp add: not_le [symmetric])
      from secondIndex_in_window [OF w] js w True show ?thesis
        by (simp add: classify_judging Let_def array_store_in_range not_le)
    next
      case False
      with js it le5 show ?thesis
        by (simp add: classify_judging Let_def)
    qed
  qed
  have b: "currentState s = STATE_ALARM \<and> btnWasLow s \<and> btnPressStart s = millis T0 \<longrightarrow>
      (currentState (button_logic s (millis T1) True) = STATE_MONITORING \<longleftrightarrow> 2000 \<le> T1 - T0)"
    by (auto simp add: button_logic_def LONG_PRESS_MS_def le2)
  from d si j b show ?thesis by simp
qed

theorem elapsed_time_wraps_safely_witness:
  "millis 4294966296 = 4294966296 \<and> millis 4294971296 = 4000 \<and>
   unat (millis 4294971296 - millis 4294966296) = 5000 \<and>
   currentState (fst (classify elsewhere
     (initial_state\<lparr>currentState := STATE_JUDGING, impactTime := millis 4294966296\<rparr>)
     (millis 4294971296) 0)) \<noteq> STATE_JUDGING \<and>
   currentState (button_logic
     (initial_state\<lparr>currentState := STATE_ALARM, btnWasLow := True,
        btnPressStart := millis 4294966296\<rparr>)
     (millis 4294971296) True) = STATE_MONITORING"
proof -
  let ?j = "initial_state\<lparr>currentState := STATE_JUDGING, impactTime := millis 4294966296\<rparr>"
  let ?al = "initial_state\<lparr>currentState := STATE_ALARM, btnWasLow := True,
        btnPressStart := millis 4294966296\<rparr>"
  have 1: "(4294966296::nat) \<le> 4294971296" by simp
  have 2: "(4294971296::nat) - 4294966296 < 2 ^ 32" by simp
  have m: "millis 4294966296 = 4294966296 \<and> millis 4294971296 = 4000"
    by (simp add: millis_def)
  from elapsed_time_wraps_safely [OF 1 2, where s = ?j and lay = elsewhere and a = 0]
       elapsed_time_wraps_safely [OF 1 2, where s = ?al and lay = elsewhere and a = 0] m
  show ?thesis
    by simp
qed

section \<open>The button outside the alarm (C9)\<close>

text \<open>
  C9 (amended). When the state is not \<open>STATE_ALARM\<close> at the button step of an
  iteration (that is, after the \<open>switch\<close>, which left the globals \<open>c\<close>), no press edge
  is recorded and no hold duration is computed: \<open>btnWasLow\<close> is made false,
  \<open>btnPressStart\<close> is left as the step found it, and \<open>btnHeld\<close> is set to the level of
  the button in this iteration. The button changes nothing else: with any other level
  the step ends in the same globals but for \<open>btnHeld\<close>, so holding the button makes
  no transition. The iteration ends with the globals of this step, and the clock of the
  display.
\<close>

theorem button_outside_alarm:
  assumes "currentState c \<noteq> STATE_ALARM"
  shows "btnHeld (button_logic c now pressed) = pressed \<and>
         \<not> btnWasLow (button_logic c now pressed) \<and>
         btnPressStart (button_logic c now pressed) = btnPressStart c \<and>
         currentState (button_logic c now pressed) = currentState c \<and>
         button_logic c now pressed = (button_logic c now pressed')\<lparr>btnHeld := pressed\<rparr> \<and>
         (fst (classify lay s now a) = c \<longrightarrow>
            fst (loop_body lay s now a pressed) = ui_update (button_logic c now pressed) now)"
  using assms
  by (simp add: loop_body_fst button_logic_not_alarm)

theorem button_outside_alarm_witness:
  "currentState initial_state \<noteq> STATE_ALARM \<and>
   btnHeld (button_logic initial_state 1000 True) \<and>
   \<not> btnWasLow (button_logic initial_state 1000 True) \<and>
   btnPressStart (button_logic initial_state 1000 True) = 0 \<and>
   currentState (button_logic initial_state 1000 True) = STATE_MONITORING \<and>
   fst (loop_body elsewhere initial_state 1000 1 True) =
     ui_update (button_logic initial_state 1000 True) 1000"
proof -
  have m: "currentState initial_state = STATE_MONITORING"
    by (simp add: initial_state_def)
  then have 1: "currentState initial_state \<noteq> STATE_ALARM"
    by simp
  have p: "btnPressStart initial_state = 0"
    by (simp add: initial_state_def)
  have c: "fst (classify elsewhere initial_state 1000 1) = initial_state"
    by (simp add: classify_monitoring m IMPACT_SQ_val)
  note th = button_outside_alarm [OF 1, where now = 1000 and pressed = True
      and pressed' = False and lay = elsewhere and s = initial_state and a = 1]
  from th have "btnHeld (button_logic initial_state 1000 True) = True"
    and "\<not> btnWasLow (button_logic initial_state 1000 True)"
    and "btnPressStart (button_logic initial_state 1000 True) = btnPressStart initial_state"
    and "currentState (button_logic initial_state 1000 True) = currentState initial_state"
    and "fst (classify elsewhere initial_state 1000 1) = initial_state \<longrightarrow>
         fst (loop_body elsewhere initial_state 1000 1 True) =
           ui_update (button_logic initial_state 1000 True) 1000"
    by blast+
  with 1 m p c show ?thesis by simp
qed

text \<open>
  C9 as first stated (outside the alarm the hold duration is still computed from the
  press edge) fails: from the start of the sketch, with the button down at 1000 ms and
  still down at 4000 ms, the state is not \<open>STATE_ALARM\<close>, and yet no press edge is
  pending, the recorded press start is not 1000 and the difference to the clock is not
  the 3000 ms of the hold; the globals are the same as with the button up at 1000 ms.
  (No store is made in these iterations, so the placement plays no part.)
\<close>

lemma hold_outside_alarm_run:
  "run lay initial_state [(1000, 1, p), (4000, 1, True)] =
   \<lparr> currentState = STATE_MONITORING, impactTime = 0, btnWasLow = False,
     btnPressStart = 0, btnHeld = True,
     motionHistory = [False, False, False, False, False], lastDisplayTime = 4000 \<rparr>"
  by (simp add: eval_defs)

theorem hold_duration_outside_alarm_counterexample:
  "currentState (run elsewhere initial_state [(1000, 1, True), (4000, 1, True)])
     \<noteq> STATE_ALARM \<and>
   \<not> btnWasLow (run elsewhere initial_state [(1000, 1, True), (4000, 1, True)]) \<and>
   btnPressStart (run elsewhere initial_state [(1000, 1, True), (4000, 1, True)]) \<noteq> 1000 \<and>
   4000 - btnPressStart (run elsewhere initial_state [(1000, 1, True), (4000, 1, True)])
     \<noteq> 3000 \<and>
   run elsewhere initial_state [(1000, 1, True), (4000, 1, True)] =
     run elsewhere initial_state [(1000, 1, False), (4000, 1, True)]"
  unfolding hold_outside_alarm_run by simp

end
